theory Spec2Isabelle
  imports Main
begin

section \<open>JavaScript strings\<close>

text \<open>
  A text is a \<^typ>\<open>string\<close>: one \<^typ>\<open>char\<close> per code unit, for texts whose code units
  fit eight bits. All patterns the program searches for are ASCII.
  \<^verbatim>\<open>s.startsWith(p)\<close> and \<^verbatim>\<open>s.includes(p)\<close>:
\<close>

fun startsWith :: "string \<Rightarrow> string \<Rightarrow> bool" where
  "startsWith s [] = True"
| "startsWith [] (p # ps) = False"
| "startsWith (c # cs) (p # ps) = (c = p \<and> startsWith cs ps)"

fun includes_str :: "string \<Rightarrow> string \<Rightarrow> bool" where
  "includes_str [] p = (p = [])"
| "includes_str (c # cs) p = (startsWith (c # cs) p \<or> includes_str cs p)"

text \<open>
  \<^verbatim>\<open>s.replace(pat, rep)\<close> with a string pattern replaces the first occurrence only.
\<close>

fun replace_first :: "string \<Rightarrow> string \<Rightarrow> string \<Rightarrow> string" where
  "replace_first pat rep [] = (if pat = [] then rep else [])"
| "replace_first pat rep (c # cs) =
     (if startsWith (c # cs) pat then rep @ drop (length pat) (c # cs)
      else c # replace_first pat rep cs)"

text \<open>\<^verbatim>\<open>xs.join(sep)\<close>:\<close>

fun join :: "string \<Rightarrow> string list \<Rightarrow> string" where
  "join sep [] = []"
| "join sep [x] = x"
| "join sep (x # y # ys) = x @ sep @ join sep (y # ys)"

text \<open>
  \<^verbatim>\<open>s.trim()\<close> removes white space and line terminators at both ends; in the eight-bit
  range these are the code units 9 to 13, 32 and 160.
\<close>

definition is_space :: "char \<Rightarrow> bool" where
  "is_space c = (of_char c \<in> {9, 10, 11, 12, 13, 32, 160 :: nat})"

definition trim :: "string \<Rightarrow> string" where
  "trim s = rev (dropWhile is_space (rev (dropWhile is_space s)))"

subsection \<open>The regular expressions\<close>

text \<open>
  A matcher answers, for the text at the current position, how many code units the
  regular expression consumes there, if it matches. None of the expressions of the
  program matches the empty string or looks behind the position. A global
  search takes the leftmost match, then goes on behind it; the counter \<open>k\<close> of the
  three functions below is the number of code units of the current match still to pass.
\<close>

type_synonym matcher = "string \<Rightarrow> nat option"

text \<open>\<^verbatim>\<open>s.split(re)\<close>; \<open>cur\<close> is the piece being collected, reversed.\<close>

fun split_re :: "matcher \<Rightarrow> nat \<Rightarrow> string \<Rightarrow> string \<Rightarrow> string list" where
  "split_re m k cur [] = [rev cur]"
| "split_re m (Suc k) cur (c # cs) = split_re m k cur cs"
| "split_re m 0 cur (c # cs) =
     (case m (c # cs) of
        Some (Suc n) \<Rightarrow> rev cur # split_re m n [] cs
      | _ \<Rightarrow> split_re m 0 (c # cur) cs)"

text \<open>\<^verbatim>\<open>s.replace(re, '')\<close> with the \<^verbatim>\<open>g\<close> flag.\<close>

fun remove_re :: "matcher \<Rightarrow> nat \<Rightarrow> string \<Rightarrow> string" where
  "remove_re m k [] = []"
| "remove_re m (Suc k) (c # cs) = remove_re m k cs"
| "remove_re m 0 (c # cs) =
     (case m (c # cs) of
        Some (Suc n) \<Rightarrow> remove_re m n cs
      | _ \<Rightarrow> c # remove_re m 0 cs)"

text \<open>\<^verbatim>\<open>(s.match(re) || []).length\<close> with the \<^verbatim>\<open>g\<close> flag.\<close>

fun count_re :: "matcher \<Rightarrow> nat \<Rightarrow> string \<Rightarrow> nat" where
  "count_re m k [] = 0"
| "count_re m (Suc k) (c # cs) = count_re m k cs"
| "count_re m 0 (c # cs) =
     (case m (c # cs) of
        Some (Suc n) \<Rightarrow> Suc (count_re m n cs)
      | _ \<Rightarrow> count_re m 0 cs)"

text \<open>\<^verbatim>\<open>/---PATCH---|---EXPLANATION---/\<close>\<close>

definition marker_re :: matcher where
  "marker_re s =
     (if startsWith s ''---PATCH---'' then Some (length ''---PATCH---'')
      else if startsWith s ''---EXPLANATION---'' then Some (length ''---EXPLANATION---'')
      else None)"

text \<open>
  \<^verbatim>\<open>/```pd\n?|\n?```/\<close>: the first alternative takes a line feed behind the fence when
  there is one; the second takes a line feed in front of it.
\<close>

definition fence_re :: matcher where
  "fence_re s =
     (if startsWith s ''```pd'' then
        (if startsWith (drop 5 s) [CHR 0x0A] then Some 6 else Some 5)
      else if startsWith s (CHR 0x0A # ''```'') then Some 4
      else if startsWith s ''```'' then Some 3
      else None)"

text \<open>
  \<^verbatim>\<open>/#X connect \d+ \d+/\<close>: each \<^verbatim>\<open>\d+\<close> is greedy, and giving a digit back never
  helps, since a space must follow.
\<close>

definition is_digit :: "char \<Rightarrow> bool" where
  "is_digit c = (c \<in> set ''0123456789'')"

definition connect_re :: matcher where
  "connect_re s =
     (if startsWith s ''#X connect '' then
        (let r = drop (length ''#X connect '') s;
             d1 = takeWhile is_digit r;
             r1 = dropWhile is_digit r
         in if d1 = [] then None
            else (case r1 of
                    [] \<Rightarrow> None
                  | c # r2 \<Rightarrow>
                      (let d2 = takeWhile is_digit r2
                       in if c = CHR '' '' \<and> d2 \<noteq> []
                          then Some (length ''#X connect '' + length d1 + 1 + length d2)
                          else None)))
      else None)"

text \<open>\<^verbatim>\<open>/#X connect/\<close>, of \<^verbatim>\<open>App.tsx\<close>.\<close>

definition connect_word_re :: matcher where
  "connect_word_re s =
     (if startsWith s ''#X connect'' then Some (length ''#X connect'') else None)"

section \<open>The structural validator (openai.ts, lines 86 to 106)\<close>

text \<open>
  The object literal \<^verbatim>\<open>validation\<close>: its entries in insertion order, which is the order
  of \<^verbatim>\<open>Object.values\<close> and \<^verbatim>\<open>Object.entries\<close>.
\<close>

type_synonym report = "(string \<times> bool) list"

definition validation :: "string \<Rightarrow> report" where
  "validation patch =
     [(''hasStartToggle'', includes_str patch ''tgl 15 0'' \<and> includes_str patch ''START''),
      (''hasDac'', includes_str patch ''dac~''),
      (''hasVolumeControl'', includes_str patch ''*~ 0.5'' \<or> includes_str patch ''*~ 0.25''),
      (''hasVuMeter'', includes_str patch ''vu 15 120''),
      (''hasInstructions'', includes_str patch ''cnv 15'' \<and> includes_str patch ''text''),
      (''hasLoadBang'', includes_str patch ''loadbang''),
      (''hasMetro'', includes_str patch ''metro''),
      (''hasConnections'', includes_str patch ''#X connect''),
      (''hasAudioChain'',
         (includes_str patch ''osc~'' \<or> includes_str patch ''phasor~'' \<or> includes_str patch ''noise~'')
         \<and> includes_str patch ''*~'' \<and> includes_str patch ''clip~'' \<and> includes_str patch ''dac~''),
      (''hasProperConnections'', count_re connect_re 0 patch \<ge> 6),
      (''hasSafeVolume'',
         includes_str patch ''*~ 0.5'' \<or> includes_str patch ''*~ 0.25'' \<or> includes_str patch ''*~ 0.1'')]"

text \<open>Reading one entry of the report, \<^verbatim>\<open>validation[key]\<close>.\<close>

definition predicate :: "report \<Rightarrow> string \<Rightarrow> bool option" where
  "predicate r key = map_of r key"

section \<open>Generation (openai.ts)\<close>

subsection \<open>Errors, messages, the completion service\<close>

text \<open>
  A thrown value: its \<^verbatim>\<open>message\<close> and, for an error of the service, its HTTP
  \<^verbatim>\<open>status\<close>. \<open>new_Error m\<close> is \<^verbatim>\<open>new Error(m)\<close>, which has no status.
\<close>

record js_error =
  message :: string
  status :: "nat option"

definition new_Error :: "string \<Rightarrow> js_error" where
  "new_Error m = \<lparr>message = m, status = None\<rparr>"

datatype role = System | User

type_synonym chat_message = "role \<times> string"

definition system_prompt :: string where
  "system_prompt = join [CHR 0x0A]
     [''You are an expert in Pure Data (Pd) programming. Generate functional audio ''
        @ ''patches with clear instructions. Your response MUST follow this EXACT format ''
        @ ''and include ALL components:'',
      '''',
      ''---PATCH---'',
      ''#N canvas 0 0 520 400;'',
      ''#X obj 10 10 cnv 15 500 60 empty empty FM Synthesizer 20 12 0 14 -233017 -66577 0;'',
      ''#X text 20 30 Instructions: 1) Click START 2) Adjust frequency 3) Control volume;'',
      ''#X obj 50 100 loadbang;'',
      ''#X msg 50 120 1;'',
      ''#X obj 50 140 tgl 15 0 empty empty START 17 7 0 10 -262144 -1 -1 0 1;'',
      ''#X obj 50 160 metro 100;'',
      ''#X obj 50 200 osc~ 440;'',
      ''#X obj 50 250 *~ 0.5;'',
      ''#X obj 50 300 clip~ -1 1;'',
      ''#X obj 50 350 dac~;'',
      ''#X obj 150 300 vu 15 120 empty empty -1 -8 0 10 -66577 -1 1;'',
      ''#X connect 2 0 3 0;'',
      ''#X connect 3 0 4 0;'',
      ''#X connect 4 0 5 0;'',
      ''#X connect 5 0 6 0;'',
      ''#X connect 6 0 7 0;'',
      ''#X connect 7 0 8 0;'',
      ''#X connect 8 0 9 0;'',
      ''#X connect 8 0 10 0;'',
      '''',
      ''CRITICAL REQUIREMENTS:'',
      ''1. EVERY audio object (ending in ~) MUST be connected in sequence'',
      ''2. ALL connections MUST be explicitly listed with #X connect'',
      ''3. Audio chain MUST flow: source~ -> processing~ -> volume~ -> clip~ -> dac~'',
      ''4. Control flow MUST be: loadbang -> msg 1 -> tgl -> metro -> audio'',
      ''5. Volume control MUST be 0.5 or less for safety'',
      ''6. Instructions MUST be visible in the patch'',
      '''',
      ''---EXPLANATION---'',
      ''Step-by-step explanation of the patch...'']"

text \<open>
  The \<^verbatim>\<open>messages\<close> array of the request. The feedback turn is there when
  \<^verbatim>\<open>errorFeedback\<close> is truthy: given and not the empty string. Model, temperature
  and token limit of the request are constants and left out.
\<close>

definition messages :: "string \<Rightarrow> string option \<Rightarrow> chat_message list" where
  "messages prompt errorFeedback =
     [(System, system_prompt), (User, prompt)] @
     (case errorFeedback of
        None \<Rightarrow> []
      | Some fb \<Rightarrow> if fb = [] then [] else [(User, ''Errors to fix: '' @ fb)])"

text \<open>
  The completion service together with the 30 second timer it races against: the
  \<open>n\<close>-th request of a generation either fails with an error (of the service, of the
  transport, the timer's \<^verbatim>\<open>OpenAI request timeout\<close>, or the \<^verbatim>\<open>TypeError\<close> of reading
  \<^verbatim>\<open>choices[0].message\<close> of a response without choices, all thrown inside the same
  \<^verbatim>\<open>try\<close>) or yields the content of the first choice, which may be \<^verbatim>\<open>null\<close>.
\<close>

type_synonym completion_client = "nat \<Rightarrow> chat_message list \<Rightarrow> js_error + string option"

type_synonym storage = "string \<rightharpoonup> string"

record GenerateResponse =
  patch :: string
  explanation :: string

subsection \<open>Splitting the completion (lines 79 to 83)\<close>

text \<open>
  \<^verbatim>\<open>parts[1]?.replace(...) || ''\<close> and \<^verbatim>\<open>parts[2] || ''\<close>: a part that does not exist
  gives the empty string.
\<close>

definition split_completion :: "string option \<Rightarrow> string \<times> string" where
  "split_completion c =
     (let content = (case c of None \<Rightarrow> [] | Some s \<Rightarrow> s);
          parts = split_re marker_re 0 [] content;
          patch = (if 1 < length parts then remove_re fence_re 0 (parts ! 1) else []);
          explanation = (if 2 < length parts then parts ! 2 else [])
      in (patch, explanation))"

subsection \<open>The retry (lines 108 to 121) and the error handler (lines 129 to 145)\<close>

definition some_missing :: "report \<Rightarrow> bool" where
  "some_missing r = (\<exists>v \<in> set (map snd r). \<not> v)"

definition missingComponents :: "report \<Rightarrow> string" where
  "missingComponents r =
     join '', ''
       (map (\<lambda>(component, exists). replace_first ''has'' [] component)
          (filter (\<lambda>(component, exists). \<not> exists) r))"

definition catch_handler :: "js_error \<Rightarrow> js_error" where
  "catch_handler error =
     (if message error = ''API_KEY_MISSING'' then
        new_Error ''Please set your OpenAI API key in the settings to generate patches''
      else if message error = ''API_KEY_INVALID'' then
        new_Error ''Invalid API key format. Please check your OpenAI API key''
      else if status error = Some 401 then
        new_Error ''Invalid API key. Please check your OpenAI API key in settings''
      else if status error = Some 429 then
        new_Error ''API rate limit exceeded. Please try again later''
      else error)"

text \<open>
  What a run of \<^verbatim>\<open>generatePdPatch\<close> does, in order: each invocation with its retry
  counter and feedback, each request sent to the completion service, each validation
  with the patch body it read and the report it made.
\<close>

datatype event =
    Invoked nat "string option"
  | Completion "chat_message list"
  | Validated string report

text \<open>
  \<^verbatim>\<open>generatePdPatch(prompt, errorFeedback, retryCount)\<close>, with the local storage it
  reads, the completion service, and the number \<open>n\<close> of requests sent before. The two
  credential checks stand before the \<^verbatim>\<open>try\<close>, so their errors do not pass the
  handler; the recursive call is returned without \<^verbatim>\<open>await\<close>, so neither does an
  error of a later attempt pass the handler of an earlier one. \<^verbatim>\<open>console.warn\<close> is
  left out.
\<close>

function generatePdPatch ::
  "storage \<Rightarrow> completion_client \<Rightarrow> nat \<Rightarrow> string \<Rightarrow> string option \<Rightarrow> nat
     \<Rightarrow> (js_error + GenerateResponse) \<times> event list"
where
  "generatePdPatch ls client n prompt errorFeedback retryCount =
     (case ls ''openai_api_key'' of
        None \<Rightarrow> (Inl (new_Error ''API_KEY_MISSING''), [Invoked retryCount errorFeedback])
      | Some apiKey \<Rightarrow>
          if apiKey = [] then
            (Inl (new_Error ''API_KEY_MISSING''), [Invoked retryCount errorFeedback])
          else if \<not> startsWith apiKey ''sk-'' then
            (Inl (new_Error ''API_KEY_INVALID''), [Invoked retryCount errorFeedback])
          else
            (case client n (messages prompt errorFeedback) of
               Inl error \<Rightarrow>
                 (Inl (catch_handler error),
                  [Invoked retryCount errorFeedback, Completion (messages prompt errorFeedback)])
             | Inr c \<Rightarrow>
                 (let patch = fst (split_completion c);
                      explanation = snd (split_completion c);
                      validation = validation patch
                  in if retryCount < 2 \<and> some_missing validation then
                       apsnd
                         (\<lambda>later. [Invoked retryCount errorFeedback,
                                   Completion (messages prompt errorFeedback),
                                   Validated patch validation] @ later)
                         (generatePdPatch ls client (Suc n) prompt
                            (Some (''Please include missing components: ''
                                     @ missingComponents validation))
                            (retryCount + 1))
                     else
                       (Inr \<lparr>patch = trim patch, explanation = trim explanation\<rparr>,
                        [Invoked retryCount errorFeedback,
                         Completion (messages prompt errorFeedback),
                         Validated patch validation]))))"
  by pat_completeness auto
termination
  by (relation "measure (\<lambda>(ls, client, n, prompt, errorFeedback, retryCount). 2 - retryCount)")
    auto

section \<open>The application (App.tsx, lines 1354 and following)\<close>

subsection \<open>Patches (types.ts)\<close>

text \<open>
  Dates are milliseconds since the epoch. Field names that occur in several of the
  interfaces carry a prefix in all but one: \<open>rg_\<close> in \<^verbatim>\<open>regeneratedPatch\<close>, and
  \<open>pd_explanation\<close> in \<^verbatim>\<open>PdPatch\<close>. An optional field is an \<^typ>\<open>'a option\<close>.
\<close>

record regenerated =
  rg_content :: string
  rg_explanation :: string
  rg_timestamp :: nat

record ErrorHistoryEntry =
  error :: string
  timestamp :: nat
  regeneratedPatch :: "regenerated option"

record audio_chain =
  hasStartToggle :: bool
  hasDac :: bool
  hasVolumeControl :: bool
  hasVuMeter :: bool
  hasInstructions :: bool

record patch_metadata =
  width :: nat
  height :: nat
  audioEnabled :: bool
  controlRate :: bool
  requiredObjects :: "string list"
  audioChain :: audio_chain

record PdPatch =
  name :: string
  content :: string
  pd_explanation :: string
  description :: string
  created :: nat
  version :: string
  metadata :: patch_metadata
  errorHistory :: "ErrorHistoryEntry list option"

subsection \<open>State\<close>

datatype toast = toast_error string | toast_success string

text \<open>
  The state the two handlers read and write: the React state, the toasts shown so far,
  and the local storage.
\<close>

record app_state =
  prompt :: string
  isGenerating :: bool
  currentPatch :: "PdPatch option"
  history :: "PdPatch list"
  pdErrors :: string
  isRegenerating :: bool
  showApiSettings :: bool
  toasts :: "toast list"
  localStorage :: storage

text \<open>The decimal numeral of a number, as a template literal prints it.\<close>

function decimal :: "nat \<Rightarrow> string" where
  "decimal n =
     (if n < 10 then [''0123456789'' ! n]
      else decimal (n div 10) @ [''0123456789'' ! (n mod 10)])"
  by pat_completeness auto
termination
  by (relation "measure id") auto

subsection \<open>handleGenerate (lines 1396 to 1471)\<close>

definition new_patch :: "nat \<Rightarrow> nat \<Rightarrow> string \<Rightarrow> GenerateResponse \<Rightarrow> PdPatch" where
  "new_patch date_now new_date user_prompt result =
     \<lparr>name = ''patch_'' @ decimal date_now,
      content = patch result,
      pd_explanation = explanation result,
      description = user_prompt,
      created = new_date,
      version = ''1.0'',
      metadata =
        \<lparr>width = 520,
         height = 400,
         audioEnabled = True,
         controlRate = True,
         requiredObjects =
           [''loadbang'', ''tgl'', ''metro'', ''osc~'', ''dac~'', ''*~'', ''clip~'', ''vu'', ''cnv''],
         audioChain =
           \<lparr>hasStartToggle = True,
            hasDac = True,
            hasVolumeControl = True,
            hasVuMeter = True,
            hasInstructions = True\<rparr>\<rparr>,
      errorHistory = Some []\<rparr>"

definition audioValidation :: "string \<Rightarrow> report" where
  "audioValidation p =
     [(''hasAudioSource'',
         includes_str p ''osc~'' \<or> includes_str p ''phasor~'' \<or> includes_str p ''noise~''),
      (''hasVolume'', includes_str p ''*~ 0.5'' \<or> includes_str p ''*~ 0.25''),
      (''hasOutput'', includes_str p ''dac~''),
      (''hasConnections'', count_re connect_word_re 0 p \<ge> 6)]"

text \<open>The \<^verbatim>\<open>catch\<close> block of \<^verbatim>\<open>handleGenerate\<close>.\<close>

definition generate_failed :: "js_error \<Rightarrow> app_state \<Rightarrow> app_state" where
  "generate_failed e s =
     (if includes_str (message e) ''API key'' then
        s\<lparr>toasts := toasts s @ [toast_error (message e)], showApiSettings := True\<rparr>
      else s\<lparr>toasts := toasts s @ [toast_error (''Error: '' @ message e)]\<rparr>)"

text \<open>
  \<^verbatim>\<open>handleGenerate\<close>, given \<^verbatim>\<open>JSON.stringify\<close>, the completion service, and the values
  of \<^verbatim>\<open>Date.now()\<close> and \<^verbatim>\<open>new Date()\<close>. It returns the new state and what the run of
  \<^verbatim>\<open>generatePdPatch\<close> did.
\<close>

definition handleGenerate ::
  "(PdPatch list \<Rightarrow> string) \<Rightarrow> completion_client \<Rightarrow> nat \<Rightarrow> nat \<Rightarrow> app_state
     \<Rightarrow> app_state \<times> event list"
where
  "handleGenerate stringify client date_now new_date s =
     (if trim (prompt s) = [] then
        (s\<lparr>toasts := toasts s @ [toast_error ''Please enter a prompt'']\<rparr>, [])
      else
        (let s1 = s\<lparr>isGenerating := True, pdErrors := []\<rparr>;
             run = generatePdPatch (localStorage s1) client 0 (prompt s1) None 0
         in (case fst run of
               Inl e \<Rightarrow> ((generate_failed e s1)\<lparr>isGenerating := False\<rparr>, snd run)
             | Inr result \<Rightarrow>
                 (let newPatch = new_patch date_now new_date (prompt s1) result
                  in if \<not> (\<forall>v \<in> set (map snd (audioValidation (patch result))). v) then
                       ((generate_failed
                           (new_Error ''Generated patch is missing critical audio components'') s1)
                          \<lparr>isGenerating := False\<rparr>,
                        snd run)
                     else
                       (let updated = newPatch # history s1
                        in (s1\<lparr>currentPatch := Some newPatch,
                               history := updated,
                               localStorage :=
                                 (localStorage s1)(''pdPatchHistory'' \<mapsto> stringify updated),
                               toasts := toasts s1 @ [toast_success ''Patch generated successfully!''],
                               isGenerating := False\<rparr>,
                            snd run))))))"

subsection \<open>handleRegenerate (lines 1488 to 1531)\<close>

text \<open>
  \<^verbatim>\<open>handleRegenerate(errorMessage)\<close>, given in addition the values of the two
  \<^verbatim>\<open>new Date()\<close>. \<^verbatim>\<open>console.error\<close> is left out.
\<close>

definition updated_patch :: "nat \<Rightarrow> nat \<Rightarrow> string \<Rightarrow> GenerateResponse \<Rightarrow> PdPatch \<Rightarrow> PdPatch" where
  "updated_patch date1 date2 errorMessage result cp =
     cp\<lparr>errorHistory :=
          Some (\<lparr>error = errorMessage,
                 timestamp = date1,
                 regeneratedPatch =
                   Some \<lparr>rg_content = patch result,
                         rg_explanation = explanation result,
                         rg_timestamp = date2\<rparr>\<rparr>
                # (case errorHistory cp of None \<Rightarrow> [] | Some h \<Rightarrow> h))\<rparr>"

definition handleRegenerate ::
  "(PdPatch list \<Rightarrow> string) \<Rightarrow> completion_client \<Rightarrow> nat \<Rightarrow> nat \<Rightarrow> string \<Rightarrow> app_state
     \<Rightarrow> app_state \<times> event list"
where
  "handleRegenerate stringify client date1 date2 errorMessage s =
     (case currentPatch s of
        None \<Rightarrow> (s, [])
      | Some cp \<Rightarrow>
          (let s1 = s\<lparr>isRegenerating := True, pdErrors := []\<rparr>;
               run = generatePdPatch (localStorage s1) client 0 (description cp)
                       (Some errorMessage) 0
           in (case fst run of
                 Inr result \<Rightarrow>
                   (let updatedPatch = updated_patch date1 date2 errorMessage result cp;
                        updated = map (\<lambda>p. if name p = name cp then updatedPatch else p)
                                    (history s1)
                    in (s1\<lparr>currentPatch := Some updatedPatch,
                           history := updated,
                           localStorage :=
                             (localStorage s1)(''pdPatchHistory'' \<mapsto> stringify updated),
                           isRegenerating := False\<rparr>,
                        snd run))
               | Inl e \<Rightarrow>
                   (s1\<lparr>toasts := toasts s1 @ [toast_error ''Failed to regenerate patch''],
                       isRegenerating := False\<rparr>,
                    snd run))))"

section \<open>Reading a run\<close>

text \<open>The invocations, the requests and the validations of a run, each in order.\<close>

fun invocations :: "event list \<Rightarrow> (nat \<times> string option) list" where
  "invocations [] = []"
| "invocations (Invoked r f # es) = (r, f) # invocations es"
| "invocations (e # es) = invocations es"

fun completions :: "event list \<Rightarrow> chat_message list list" where
  "completions [] = []"
| "completions (Completion m # es) = m # completions es"
| "completions (e # es) = completions es"

fun validations :: "event list \<Rightarrow> (string \<times> report) list" where
  "validations [] = []"
| "validations (Validated p r # es) = (p, r) # validations es"
| "validations (e # es) = validations es"

text \<open>The stored credential passes the two checks of lines 6 to 12.\<close>

definition credential_ok :: "storage \<Rightarrow> bool" where
  "credential_ok ls =
     (case ls ''openai_api_key'' of
        None \<Rightarrow> False
      | Some apiKey \<Rightarrow> apiKey \<noteq> [] \<and> startsWith apiKey ''sk-'')"

section \<open>Concrete inputs\<close>

text \<open>
  A short patch body that has every component the validator looks for; one without the
  level meter and with four connections only; one without the level meter alone; a
  completion that holds a given body; a storage with a credential; a first state of the
  application.
\<close>

definition full_patch :: string where
  "full_patch =
     ''cnv 15 text tgl 15 0 START loadbang metro osc~ *~ 0.25 clip~ dac~ vu 15 120;''
     @ ''#X connect 0 0 1 0;#X connect 1 0 2 0;#X connect 2 0 3 0;''
     @ ''#X connect 3 0 4 0;#X connect 4 0 5 0;#X connect 5 0 6 0;''"

definition scenario_b_patch :: string where
  "scenario_b_patch =
     ''cnv 15 text tgl 15 0 START loadbang metro osc~ *~ 0.25 clip~ dac~;''
     @ ''#X connect 0 0 1 0;#X connect 1 0 2 0;#X connect 2 0 3 0;#X connect 3 0 4 0;''"

definition meterless_patch :: string where
  "meterless_patch =
     ''cnv 15 text tgl 15 0 START loadbang metro osc~ *~ 0.25 clip~ dac~;''
     @ ''#X connect 0 0 1 0;#X connect 1 0 2 0;#X connect 2 0 3 0;''
     @ ''#X connect 3 0 4 0;#X connect 4 0 5 0;#X connect 5 0 6 0;''"

definition completion_of :: "string \<Rightarrow> string option" where
  "completion_of body = Some (''---PATCH---'' @ body @ ''---EXPLANATION---A tone.'')"

definition test_storage :: storage where
  "test_storage = [''openai_api_key'' \<mapsto> ''sk-test'']"

definition initial_state :: app_state where
  "initial_state =
     \<lparr>prompt = ''tone'', isGenerating = False, currentPatch = None, history = [],
      pdErrors = [], isRegenerating = False, showApiSettings = False, toasts = [],
      localStorage = test_storage\<rparr>"

text \<open>
  A state in which a patch with one earlier error entry is selected, and a second patch
  stands behind it in the history.
\<close>

definition stored_patch :: PdPatch where
  "stored_patch =
     (new_patch 1000 1001 ''tone'' \<lparr>patch = ''dac~'', explanation = ''An output.''\<rparr>)
       \<lparr>errorHistory :=
          Some [\<lparr>error = ''too loud'', timestamp = 1500, regeneratedPatch = None\<rparr>]\<rparr>"

definition other_patch :: PdPatch where
  "other_patch = new_patch 900 901 ''noise'' \<lparr>patch = ''noise~'', explanation = ''Noise.''\<rparr>"

definition regenerate_state :: app_state where
  "regenerate_state =
     initial_state\<lparr>currentPatch := Some stored_patch, history := [stored_patch, other_patch]\<rparr>"

section \<open>Properties of the validator\<close>

subsection \<open>Searching\<close>

lemma startsWith_append: "startsWith s (p @ q) \<Longrightarrow> startsWith s p"
  by (induction s p rule: startsWith.induct) auto

lemma startsWith_includes: "startsWith s p \<Longrightarrow> includes_str s p"
  by (cases s) (auto elim: startsWith.elims)

lemma count_re_includes:
  "\<forall>t n. m t = Some n \<longrightarrow> startsWith t P \<Longrightarrow> 0 < count_re m k s \<Longrightarrow> includes_str s P"
proof (induction m k s rule: count_re.induct)
  case (1 m k)
  then show ?case by simp
next
  case (2 m k c cs)
  then show ?case by simp
next
  case (3 m c cs)
  show ?case
  proof (cases "m (c # cs)")
    case None
    with 3 show ?thesis by simp
  next
    case (Some l)
    with "3.prems"(1) have "startsWith (c # cs) P" by blast
    then show ?thesis by simp
  qed
qed

lemma connect_re_starts: "connect_re t = Some n \<Longrightarrow> startsWith t ''#X connect''"
proof -
  assume "connect_re t = Some n"
  then have "startsWith t (''#X connect'' @ '' '')"
    by (auto simp: connect_re_def split: if_splits)
  then show ?thesis by (rule startsWith_append)
qed

lemma proper_connections_connections:
  "6 \<le> count_re connect_re 0 p \<Longrightarrow> includes_str p ''#X connect''"
  by (rule count_re_includes [where m = connect_re and k = 0]) (auto dest: connect_re_starts)

subsection \<open>The keys of the report\<close>

text \<open>
  C1, as the code has it. For every patch body the report holds exactly eleven keys, in
  this order: the ten of the specification's list and \<open>hasSafeVolume\<close>. Every run
  computes all of them: the report is one list of eleven entries, whatever the text.
\<close>

theorem validation_keys:
  "map fst (validation p) =
     [''hasStartToggle'', ''hasDac'', ''hasVolumeControl'', ''hasVuMeter'', ''hasInstructions'',
      ''hasLoadBang'', ''hasMetro'', ''hasConnections'', ''hasAudioChain'',
      ''hasProperConnections'', ''hasSafeVolume'']
   \<and> length (validation p) = 11"
  by (simp add: validation_def)

text \<open>
  C1 as stated fails already on the empty patch body: its report has eleven entries, not
  ten, and the last key is \<open>hasSafeVolume\<close>.
\<close>

theorem validation_keys_counterexample:
  "length (validation []) \<noteq> 10 \<and> map fst (validation []) ! 10 = ''hasSafeVolume''"
  by (simp add: validation_def)

subsection \<open>Implications between the predicates\<close>

lemma validation_full_patch:
  "validation full_patch =
     [(''hasStartToggle'', True), (''hasDac'', True), (''hasVolumeControl'', True),
      (''hasVuMeter'', True), (''hasInstructions'', True), (''hasLoadBang'', True),
      (''hasMetro'', True), (''hasConnections'', True), (''hasAudioChain'', True),
      (''hasProperConnections'', True), (''hasSafeVolume'', True)]"
  by code_simp

lemma validation_scenario_b_patch:
  "validation scenario_b_patch =
     [(''hasStartToggle'', True), (''hasDac'', True), (''hasVolumeControl'', True),
      (''hasVuMeter'', False), (''hasInstructions'', True), (''hasLoadBang'', True),
      (''hasMetro'', True), (''hasConnections'', True), (''hasAudioChain'', True),
      (''hasProperConnections'', False), (''hasSafeVolume'', True)]"
  by code_simp

text \<open>
  C10. For every patch body: \<open>hasProperConnections\<close> implies \<open>hasConnections\<close>,
  \<open>hasVolumeControl\<close> implies \<open>hasSafeVolume\<close>, and \<open>hasAudioChain\<close> implies \<open>hasDac\<close>.
\<close>

theorem validation_implications:
  "(predicate (validation p) ''hasProperConnections'' = Some True
      \<longrightarrow> predicate (validation p) ''hasConnections'' = Some True)
   \<and> (predicate (validation p) ''hasVolumeControl'' = Some True
      \<longrightarrow> predicate (validation p) ''hasSafeVolume'' = Some True)
   \<and> (predicate (validation p) ''hasAudioChain'' = Some True
      \<longrightarrow> predicate (validation p) ''hasDac'' = Some True)"
  using proper_connections_connections [of p]
  by (simp add: validation_def predicate_def)

theorem validation_implications_witness:
  "predicate (validation full_patch) ''hasProperConnections'' = Some True
   \<and> predicate (validation full_patch) ''hasConnections'' = Some True
   \<and> predicate (validation full_patch) ''hasVolumeControl'' = Some True
   \<and> predicate (validation full_patch) ''hasSafeVolume'' = Some True
   \<and> predicate (validation full_patch) ''hasAudioChain'' = Some True
   \<and> predicate (validation full_patch) ''hasDac'' = Some True"
  using validation_implications [of full_patch]
  by (simp add: validation_full_patch predicate_def)

section \<open>Properties of the splitter\<close>

lemma split_re_length: "length (split_re m k cur s) = Suc (count_re m k s)"
  by (induction m k cur s rule: split_re.induct) (auto split: option.splits nat.splits)

lemma marker_re_starts:
  "marker_re t = Some n \<Longrightarrow> startsWith t ''---PATCH---'' \<or> startsWith t ''---EXPLANATION---''"
  by (auto simp: marker_re_def split: if_splits)

lemma count_re_marker_none:
  "\<not> includes_str s ''---PATCH---'' \<Longrightarrow> \<not> includes_str s ''---EXPLANATION---'' \<Longrightarrow>
   count_re marker_re k s = 0"
proof (induction marker_re k s rule: count_re.induct)
  case (1 k)
  then show ?case by simp
next
  case (2 k c cs)
  then show ?case by simp
next
  case (3 c cs)
  from "3.prems" have "marker_re (c # cs) = None"
    using marker_re_starts [of "c # cs"] by (cases "marker_re (c # cs)") auto
  with 3 show ?case by simp
qed

lemma split_parts_explanation:
  "count_re marker_re 0 c \<le> 1 \<Longrightarrow> snd (split_completion (Some c)) = []"
  by (simp add: split_completion_def Let_def split_re_length)

lemma split_parts_patch:
  "count_re marker_re 0 c = 0 \<Longrightarrow> split_completion (Some c) = ([], [])"
  by (simp add: split_completion_def Let_def split_re_length)

text \<open>
  C9, as the code has it. \<^const>\<open>split_completion\<close> is a total function into pairs of
  texts: there is no error for it to return, whatever the completion. A \<^verbatim>\<open>null\<close>
  content, and a text in which neither marker occurs, give the empty patch body and the
  empty explanation. A text in which the split finds at most one marker, whichever of the
  two, gives the empty explanation.
\<close>

theorem splitter_total:
  "split_completion None = ([], [])
   \<and> (\<not> includes_str c ''---PATCH---'' \<and> \<not> includes_str c ''---EXPLANATION---''
        \<longrightarrow> split_completion (Some c) = ([], []))
   \<and> (count_re marker_re 0 c \<le> 1 \<longrightarrow> snd (split_completion (Some c)) = [])"
  using split_parts_explanation [of c] split_parts_patch [of c] count_re_marker_none [of c 0]
  by (auto simp: split_completion_def)

theorem splitter_total_witness:
  "\<not> includes_str ''just text'' ''---PATCH---'' \<and> \<not> includes_str ''just text'' ''---EXPLANATION---''
   \<and> split_completion (Some ''just text'') = ([], [])
   \<and> count_re marker_re 0 ''---EXPLANATION---hello'' \<le> 1
   \<and> snd (split_completion (Some ''---EXPLANATION---hello'')) = []"
proof -
  have a: "\<not> includes_str ''just text'' ''---PATCH---''
      \<and> \<not> includes_str ''just text'' ''---EXPLANATION---''"
    by code_simp
  have b: "count_re marker_re 0 ''---EXPLANATION---hello'' \<le> 1"
    by code_simp
  from a b splitter_total [of "''just text''"] splitter_total [of "''---EXPLANATION---hello''"]
  show ?thesis by blast
qed

text \<open>
  C9 as stated fails where only the explanation marker occurs: the patch marker is
  missing, and the patch body is not empty but the text behind the explanation marker.
\<close>

theorem splitter_marker_counterexample:
  "\<not> includes_str ''---EXPLANATION---hello'' ''---PATCH---''
   \<and> fst (split_completion (Some ''---EXPLANATION---hello'')) = ''hello''"
  by code_simp

section \<open>Properties of a run of generatePdPatch\<close>

subsection \<open>The four ways one invocation goes\<close>

declare generatePdPatch.simps [simp del]

lemma gen_no_credential:
  "\<not> credential_ok ls \<Longrightarrow> snd (generatePdPatch ls client n p fb rc) = [Invoked rc fb]"
  by (subst generatePdPatch.simps) (auto simp: credential_ok_def split: option.splits)

lemma gen_client_error:
  "credential_ok ls \<Longrightarrow> client n (messages p fb) = Inl e \<Longrightarrow>
   generatePdPatch ls client n p fb rc =
     (Inl (catch_handler e), [Invoked rc fb, Completion (messages p fb)])"
  by (subst generatePdPatch.simps) (auto simp: credential_ok_def split: option.splits)

lemma gen_retry:
  "credential_ok ls \<Longrightarrow> client n (messages p fb) = Inr c \<Longrightarrow> rc < 2 \<Longrightarrow>
   some_missing (validation (fst (split_completion c))) \<Longrightarrow>
   generatePdPatch ls client n p fb rc =
     apsnd (\<lambda>later. [Invoked rc fb, Completion (messages p fb),
                      Validated (fst (split_completion c)) (validation (fst (split_completion c)))]
                     @ later)
       (generatePdPatch ls client (Suc n) p
          (Some (''Please include missing components: ''
                   @ missingComponents (validation (fst (split_completion c)))))
          (Suc rc))"
  by (subst generatePdPatch.simps) (auto simp: credential_ok_def Let_def split: option.splits)

lemma gen_done:
  "credential_ok ls \<Longrightarrow> client n (messages p fb) = Inr c \<Longrightarrow>
   \<not> (rc < 2 \<and> some_missing (validation (fst (split_completion c)))) \<Longrightarrow>
   generatePdPatch ls client n p fb rc =
     (Inr \<lparr>patch = trim (fst (split_completion c)),
           explanation = trim (snd (split_completion c))\<rparr>,
      [Invoked rc fb, Completion (messages p fb),
       Validated (fst (split_completion c)) (validation (fst (split_completion c)))])"
  by (subst generatePdPatch.simps) (auto simp: credential_ok_def Let_def split: option.splits)

lemma gen_cases:
  obtains (no_credential) "\<not> credential_ok ls"
  | (client_error) e where "credential_ok ls" "client n (messages p fb) = Inl e"
  | (retry) c where "credential_ok ls" "client n (messages p fb) = Inr c" "rc < 2"
      "some_missing (validation (fst (split_completion c)))"
  | (finished) c where "credential_ok ls" "client n (messages p fb) = Inr c"
      "\<not> (rc < 2 \<and> some_missing (validation (fst (split_completion c))))"
  by (cases "client n (messages p fb)") blast+

lemma run_shape:
  "\<exists>k. map fst (invocations (snd (generatePdPatch ls client n p fb rc))) = [rc ..< rc + Suc k]
       \<and> (k = 0 \<or> rc + k \<le> 2)
       \<and> length (completions (snd (generatePdPatch ls client n p fb rc))) \<le> Suc k"
proof (induction "2 - rc" arbitrary: rc n fb)
  case 0
  then have rc: "\<not> rc < 2" by simp
  show ?case
  proof (cases rule: gen_cases [where ls = ls and client = client and n = n and p = p and fb = fb and rc = rc])
    case no_credential
    then show ?thesis by (intro exI [of _ 0]) (simp add: gen_no_credential)
  next
    case (client_error e)
    then show ?thesis by (intro exI [of _ 0]) (simp add: gen_client_error)
  next
    case (retry c)
    with rc show ?thesis by simp
  next
    case (finished c)
    then show ?thesis by (intro exI [of _ 0]) (simp add: gen_done)
  qed
next
  case (Suc d)
  show ?case
  proof (cases rule: gen_cases [where ls = ls and client = client and n = n and p = p and fb = fb and rc = rc])
    case no_credential
    then show ?thesis by (intro exI [of _ 0]) (simp add: gen_no_credential)
  next
    case (client_error e)
    then show ?thesis by (intro exI [of _ 0]) (simp add: gen_client_error)
  next
    case (retry c)
    let ?fb = "Some (''Please include missing components: ''
                   @ missingComponents (validation (fst (split_completion c))))"
    from Suc.hyps(2) have "d = 2 - Suc rc" by simp
    from Suc.hyps(1) [OF this, of "Suc n" ?fb] obtain k where
      k: "map fst (invocations (snd (generatePdPatch ls client (Suc n) p ?fb (Suc rc))))
            = [Suc rc ..< Suc rc + Suc k]"
         "k = 0 \<or> Suc rc + k \<le> 2"
         "length (completions (snd (generatePdPatch ls client (Suc n) p ?fb (Suc rc)))) \<le> Suc k"
      by blast
    show ?thesis
      using k retry
      by (intro exI [of _ "Suc k"]) (auto simp: gen_retry upt_conv_Cons)
  next
    case (finished c)
    then show ?thesis by (intro exI [of _ 0]) (simp add: gen_done)
  qed
qed

subsection \<open>The retry counter\<close>

text \<open>
  C3. A top-level call of \<^verbatim>\<open>generatePdPatch\<close> has retry counter 0, whatever its prompt
  and feedback. The invocations of its run carry the retry counters 0, or 0 and 1, or 0, 1
  and 2, in this order; so the counter stays between 0 and 2 and there are at most
  three invocations. The run sends at most three requests to the completion service.
  The recursion ends: \<^const>\<open>generatePdPatch\<close> is a total function, by the termination
  proof at its definition.
\<close>

theorem retry_bounded:
  "map fst (invocations (snd (generatePdPatch ls client n p fb 0))) \<in> {[0], [0, 1], [0, 1, 2]}
   \<and> length (completions (snd (generatePdPatch ls client n p fb 0))) \<le> 3"
proof -
  obtain k where
    k: "map fst (invocations (snd (generatePdPatch ls client n p fb 0))) = [0 ..< 0 + Suc k]"
       "k = 0 \<or> 0 + k \<le> 2"
       "length (completions (snd (generatePdPatch ls client n p fb 0))) \<le> Suc k"
    using run_shape [of ls client n p fb 0] by blast
  from k(2) consider "k = 0" | "k = 1" | "k = 2" by arith
  then show ?thesis
  proof cases
    case 1 with k show ?thesis by simp
  next
    case 2 with k show ?thesis by (simp add: upt_conv_Cons)
  next
    case 3 with k show ?thesis by (simp add: upt_conv_Cons)
  qed
qed

theorem retry_bounded_witness:
  "map fst (invocations (snd (generatePdPatch test_storage
      (\<lambda>n m. Inr None) 0 ''sine tone'' None 0))) = [0, 1, 2]
   \<and> length (completions (snd (generatePdPatch test_storage
      (\<lambda>n m. Inr None) 0 ''sine tone'' None 0))) = 3"
  using retry_bounded [of test_storage "\<lambda>n m. Inr None" 0 "''sine tone''" None]
  by code_simp

subsection \<open>The credential\<close>

text \<open>
  C8. When no credential is stored (the key is absent, or the stored text is empty, which
  the test \<^verbatim>\<open>!apiKey\<close> treats alike), the call fails with \<^verbatim>\<open>API_KEY_MISSING\<close>; when
  the stored credential does not start with \<^verbatim>\<open>sk-\<close>, it fails with
  \<^verbatim>\<open>API_KEY_INVALID\<close>. In both cases the run consists of the one invocation and sends
  no request to the completion service.
\<close>

theorem credential_checked_first:
  "((ls ''openai_api_key'' = None \<or> ls ''openai_api_key'' = Some [])
      \<longrightarrow> generatePdPatch ls client n p fb rc
            = (Inl (new_Error ''API_KEY_MISSING''), [Invoked rc fb])
          \<and> completions (snd (generatePdPatch ls client n p fb rc)) = [])
   \<and> (\<forall>k. ls ''openai_api_key'' = Some k \<and> k \<noteq> [] \<and> \<not> startsWith k ''sk-''
      \<longrightarrow> generatePdPatch ls client n p fb rc
            = (Inl (new_Error ''API_KEY_INVALID''), [Invoked rc fb])
          \<and> completions (snd (generatePdPatch ls client n p fb rc)) = [])"
  by (subst (1 2 3 4) generatePdPatch.simps) auto

theorem credential_checked_first_witness:
  "generatePdPatch Map.empty (\<lambda>n m. Inr None) 0 ''tone'' None 0
     = (Inl (new_Error ''API_KEY_MISSING''), [Invoked 0 None])
   \<and> completions (snd (generatePdPatch Map.empty (\<lambda>n m. Inr None) 0 ''tone'' None 0)) = []
   \<and> generatePdPatch [''openai_api_key'' \<mapsto> ''pk-123''] (\<lambda>n m. Inr None) 0 ''tone'' None 0
     = (Inl (new_Error ''API_KEY_INVALID''), [Invoked 0 None])
   \<and> completions
        (snd (generatePdPatch [''openai_api_key'' \<mapsto> ''pk-123''] (\<lambda>n m. Inr None) 0 ''tone'' None 0))
     = []"
  using credential_checked_first [of Map.empty "\<lambda>n m. Inr None" 0 "''tone''" None 0]
    credential_checked_first [of "[''openai_api_key'' \<mapsto> ''pk-123'']" "\<lambda>n m. Inr None" 0
      "''tone''" None 0]
  by simp

subsection \<open>The validator inside a run\<close>

lemma validated_report:
  "(q, r) \<in> set (validations (snd (generatePdPatch ls client n p fb rc))) \<Longrightarrow> r = validation q"
proof (induction "2 - rc" arbitrary: rc n fb)
  case 0
  then have rc: "\<not> rc < 2" by simp
  show ?case
  proof (cases rule: gen_cases [where ls = ls and client = client and n = n and p = p
        and fb = fb and rc = rc])
    case no_credential
    with 0 show ?thesis by (simp add: gen_no_credential)
  next
    case (client_error e)
    with 0 show ?thesis by (simp add: gen_client_error)
  next
    case (retry c)
    with rc show ?thesis by simp
  next
    case (finished c)
    with 0 show ?thesis by (simp add: gen_done)
  qed
next
  case (Suc d)
  show ?case
  proof (cases rule: gen_cases [where ls = ls and client = client and n = n and p = p
        and fb = fb and rc = rc])
    case no_credential
    with Suc.prems show ?thesis by (simp add: gen_no_credential)
  next
    case (client_error e)
    with Suc.prems show ?thesis by (simp add: gen_client_error)
  next
    case (retry c)
    let ?fb = "Some (''Please include missing components: ''
                   @ missingComponents (validation (fst (split_completion c))))"
    from Suc.hyps(2) have d: "d = 2 - Suc rc" by simp
    from Suc.prems retry
    have "(q, r) = (fst (split_completion c), validation (fst (split_completion c)))
          \<or> (q, r) \<in> set (validations (snd (generatePdPatch ls client (Suc n) p ?fb (Suc rc))))"
      by (auto simp: gen_retry)
    then show ?thesis
      using Suc.hyps(1) [OF d, of "Suc n" ?fb] by auto
  next
    case (finished c)
    with Suc.prems show ?thesis by (simp add: gen_done)
  qed
qed

text \<open>
  C5. Take any two runs of \<^verbatim>\<open>generatePdPatch\<close>: any storage, any completion service, any
  prompt, feedback and retry counter. Whenever both validate the same patch body, at
  whatever attempt, the two reports are the same.
\<close>

theorem validator_pure:
  "(q, r1) \<in> set (validations (snd (generatePdPatch ls1 client1 n1 p1 fb1 rc1))) \<Longrightarrow>
   (q, r2) \<in> set (validations (snd (generatePdPatch ls2 client2 n2 p2 fb2 rc2))) \<Longrightarrow>
   r1 = r2"
  by (auto dest!: validated_report)

theorem validator_pure_witness:
  "(''dac~'', snd (hd (validations (snd (generatePdPatch test_storage
        (\<lambda>n m. Inr (Some ''---PATCH---dac~'')) 0 ''tone'' None 0)))))
     \<in> set (validations (snd (generatePdPatch test_storage
        (\<lambda>n m. Inr (Some ''---PATCH---dac~'')) 0 ''tone'' None 0)))
   \<and> (''dac~'', snd (last (validations (snd (generatePdPatch test_storage
        (\<lambda>n m. Inr (Some ''x---EXPLANATION---dac~'')) 5 ''noise'' (Some ''no sound'') 2)))))
     \<in> set (validations (snd (generatePdPatch test_storage
        (\<lambda>n m. Inr (Some ''x---EXPLANATION---dac~'')) 5 ''noise'' (Some ''no sound'') 2)))
   \<and> snd (hd (validations (snd (generatePdPatch test_storage
        (\<lambda>n m. Inr (Some ''---PATCH---dac~'')) 0 ''tone'' None 0))))
     = snd (last (validations (snd (generatePdPatch test_storage
        (\<lambda>n m. Inr (Some ''x---EXPLANATION---dac~'')) 5 ''noise'' (Some ''no sound'') 2))))"
proof -
  have a: "(''dac~'', snd (hd (validations (snd (generatePdPatch test_storage
        (\<lambda>n m. Inr (Some ''---PATCH---dac~'')) 0 ''tone'' None 0)))))
     \<in> set (validations (snd (generatePdPatch test_storage
        (\<lambda>n m. Inr (Some ''---PATCH---dac~'')) 0 ''tone'' None 0)))"
    by code_simp
  have b: "(''dac~'', snd (last (validations (snd (generatePdPatch test_storage
        (\<lambda>n m. Inr (Some ''x---EXPLANATION---dac~'')) 5 ''noise'' (Some ''no sound'') 2)))))
     \<in> set (validations (snd (generatePdPatch test_storage
        (\<lambda>n m. Inr (Some ''x---EXPLANATION---dac~'')) 5 ''noise'' (Some ''no sound'') 2)))"
    by code_simp
  from a b validator_pure [OF a b] show ?thesis by blast
qed

subsection \<open>The feedback of a repair\<close>

lemma gen_first_invocation:
  "\<exists>rest. invocations (snd (generatePdPatch ls client n p fb rc)) = (rc, fb) # rest"
  by (cases rule: gen_cases [where ls = ls and client = client and n = n and p = p
        and fb = fb and rc = rc])
    (auto simp: gen_no_credential gen_client_error gen_retry gen_done)

lemma gen_first_completion:
  "credential_ok ls \<Longrightarrow>
   \<exists>rest. completions (snd (generatePdPatch ls client n p fb rc)) = messages p fb # rest"
  by (cases rule: gen_cases [where ls = ls and client = client and n = n and p = p
        and fb = fb and rc = rc])
    (auto simp: gen_client_error gen_retry gen_done)

lemma has_prefix_of_keys:
  "(k, v) \<in> set (validation q) \<Longrightarrow> ''has'' @ replace_first ''has'' [] k = k"
  by (auto simp: validation_def)

lemma missingComponents_names:
  "\<exists>names. map (\<lambda>x. ''has'' @ x) names = map fst (filter (\<lambda>(k, v). \<not> v) (validation q))
     \<and> missingComponents (validation q) = join '', '' names"
proof (intro exI conjI)
  let ?failed = "filter (\<lambda>(k, v). \<not> v) (validation q)"
  let ?names = "map (\<lambda>(component, exists). replace_first ''has'' [] component) ?failed"
  have "\<forall>e \<in> set ?failed. ''has'' @ replace_first ''has'' [] (fst e) = fst e"
    using has_prefix_of_keys [of _ _ q] by auto
  then show "map (\<lambda>x. ''has'' @ x) ?names = map fst ?failed"
    by (auto simp: case_prod_unfold)
  show "missingComponents (validation q) = join '', '' ?names"
    by (simp add: missingComponents_def)
qed

text \<open>
  C6. Let an invocation with a valid credential receive a completion whose patch body
  fails some predicate, with a retry counter below 2. Then the next invocation, the second
  of the run, has the counter increased by one and the feedback
  \<^verbatim>\<open>Please include missing components: \<close> followed by names joined with a comma and a
  space; these names, each behind \<open>has\<close>, are exactly the keys of the failed predicates,
  in the order of the report. The second request of the run ends with the user turn
  \<^verbatim>\<open>Errors to fix: \<close> followed by this feedback.
\<close>

theorem repair_feedback:
  assumes "credential_ok ls" and "client n (messages p fb) = Inr c" and "rc < 2"
    and "some_missing (validation (fst (split_completion c)))"
  shows "\<exists>names.
      map (\<lambda>x. ''has'' @ x) names
        = map fst (filter (\<lambda>(k, v). \<not> v) (validation (fst (split_completion c))))
      \<and> invocations (snd (generatePdPatch ls client n p fb rc)) ! 1
        = (Suc rc, Some (''Please include missing components: '' @ join '', '' names))
      \<and> last (completions (snd (generatePdPatch ls client n p fb rc)) ! 1)
        = (User, ''Errors to fix: Please include missing components: '' @ join '', '' names)"
proof -
  let ?q = "fst (split_completion c)"
  let ?fb = "Some (''Please include missing components: '' @ missingComponents (validation ?q))"
  obtain names where
    names: "map (\<lambda>x. ''has'' @ x) names = map fst (filter (\<lambda>(k, v). \<not> v) (validation ?q))"
      "missingComponents (validation ?q) = join '', '' names"
    using missingComponents_names [of ?q] by blast
  obtain rest where inv: "invocations (snd (generatePdPatch ls client (Suc n) p ?fb (Suc rc)))
      = (Suc rc, ?fb) # rest"
    using gen_first_invocation by blast
  obtain rest' where com: "completions (snd (generatePdPatch ls client (Suc n) p ?fb (Suc rc)))
      = messages p ?fb # rest'"
    using gen_first_completion [OF assms(1)] by blast
  have "invocations (snd (generatePdPatch ls client n p fb rc)) ! 1 = (Suc rc, ?fb)"
    using assms inv by (simp add: gen_retry)
  moreover have "last (completions (snd (generatePdPatch ls client n p fb rc)) ! 1)
      = (User, ''Errors to fix: Please include missing components: ''
                 @ missingComponents (validation ?q))"
    using assms com by (simp add: gen_retry messages_def)
  ultimately show ?thesis using names by (intro exI [of _ names]) simp
qed

lemma split_scenario_b:
  "split_completion (completion_of scenario_b_patch) = (scenario_b_patch, ''A tone.'')"
  by code_simp

text \<open>
  The witness is the second scenario of the specification: the level meter is missing and
  there are four connections, so exactly \<open>hasVuMeter\<close> and \<open>hasProperConnections\<close>
  fail, and the feedback holds \<^verbatim>\<open>VuMeter, ProperConnections\<close>.
\<close>

theorem repair_feedback_witness:
  "invocations (snd (generatePdPatch test_storage
       (\<lambda>n m. if n = 0 then Inr (completion_of scenario_b_patch)
               else Inl (new_Error ''OpenAI request timeout''))
       0 ''tone'' None 0)) ! 1
     = (1, Some ''Please include missing components: VuMeter, ProperConnections'')
   \<and> last (completions (snd (generatePdPatch test_storage
       (\<lambda>n m. if n = 0 then Inr (completion_of scenario_b_patch)
               else Inl (new_Error ''OpenAI request timeout''))
       0 ''tone'' None 0)) ! 1)
     = (User, ''Errors to fix: Please include missing components: VuMeter, ProperConnections'')"
proof -
  let ?client = "\<lambda>(n::nat) (m::chat_message list).
      if n = 0 then Inr (completion_of scenario_b_patch)
      else (Inl (new_Error ''OpenAI request timeout'') :: js_error + string option)"
  have ok: "credential_ok test_storage"
    by (simp add: credential_ok_def test_storage_def)
  have c: "?client 0 (messages ''tone'' None) = Inr (completion_of scenario_b_patch)"
    by simp
  have missing: "some_missing (validation (fst (split_completion (completion_of scenario_b_patch))))"
    by (simp add: split_scenario_b validation_scenario_b_patch some_missing_def)
  have lt: "(0::nat) < 2" by simp
  from repair_feedback [of test_storage ?client 0 "''tone''" None
      "completion_of scenario_b_patch" 0, OF ok c lt missing]
  show ?thesis
    by (auto simp: split_scenario_b validation_scenario_b_patch map_eq_Cons_conv)
qed

subsection \<open>Failures of the completion service\<close>

lemma failing_completion_last:
  "i < length (completions (snd (generatePdPatch ls client n p fb rc))) \<Longrightarrow>
   client (n + i) (completions (snd (generatePdPatch ls client n p fb rc)) ! i) = Inl e \<Longrightarrow>
   fst (generatePdPatch ls client n p fb rc) = Inl (catch_handler e)
   \<and> length (completions (snd (generatePdPatch ls client n p fb rc))) = Suc i"
proof (induction "2 - rc" arbitrary: rc n fb i)
  case 0
  then have rc: "\<not> rc < 2" by simp
  show ?case
  proof (cases rule: gen_cases [where ls = ls and client = client and n = n and p = p
        and fb = fb and rc = rc])
    case no_credential
    with "0.prems" show ?thesis by (simp add: gen_no_credential)
  next
    case (client_error e')
    with "0.prems" show ?thesis by (simp add: gen_client_error)
  next
    case (retry c)
    with rc show ?thesis by simp
  next
    case (finished c)
    with "0.prems" show ?thesis by (simp add: gen_done)
  qed
next
  case (Suc d)
  show ?case
  proof (cases rule: gen_cases [where ls = ls and client = client and n = n and p = p
        and fb = fb and rc = rc])
    case no_credential
    with Suc.prems show ?thesis by (simp add: gen_no_credential)
  next
    case (client_error e')
    with Suc.prems show ?thesis by (simp add: gen_client_error)
  next
    case (retry c)
    let ?fb = "Some (''Please include missing components: ''
                   @ missingComponents (validation (fst (split_completion c))))"
    let ?later = "generatePdPatch ls client (Suc n) p ?fb (Suc rc)"
    from Suc.hyps(2) have d: "d = 2 - Suc rc" by simp
    from retry have run: "fst (generatePdPatch ls client n p fb rc) = fst ?later"
      "completions (snd (generatePdPatch ls client n p fb rc))
         = messages p fb # completions (snd ?later)"
      by (simp_all add: gen_retry)
    show ?thesis
    proof (cases i)
      case 0
      with Suc.prems retry run show ?thesis by simp
    next
      case (Suc j)
      with Suc.prems run have "j < length (completions (snd ?later))"
        "client (Suc n + j) (completions (snd ?later) ! j) = Inl e"
        by simp_all
      from Suc.hyps(1) [OF d this] run Suc show ?thesis by simp
    qed
  next
    case (finished c)
    with Suc.prems show ?thesis by (simp add: gen_done)
  qed
qed

lemma no_credential_result:
  "\<not> credential_ok ls \<Longrightarrow>
   completions (snd (generatePdPatch ls client n p fb rc)) = []
   \<and> (fst (generatePdPatch ls client n p fb rc) = Inl (new_Error ''API_KEY_MISSING'')
      \<or> fst (generatePdPatch ls client n p fb rc) = Inl (new_Error ''API_KEY_INVALID''))"
  by (subst (1 2 3) generatePdPatch.simps) (auto simp: credential_ok_def split: option.splits)

text \<open>
  C4. A failure of the Completion Client is the error as lines 129 to 145 classify it
  (\<^const>\<open>catch_handler\<close>): for a request rejected with status 401 or 429 the error made
  there for it, for the timer's error and every other error of the transport that error
  itself. When a request of a run fails, it is the last request of the run: no retry
  follows, and the run returns exactly this failure. No invocation before it changes it,
  since each returns its recursive call without \<^verbatim>\<open>await\<close>. When a credential check
  fails, no request is sent at all and the run returns the error of that check.
\<close>

theorem client_failure_aborts:
  "(i < length (completions (snd (generatePdPatch ls client n p fb rc)))
    \<and> client (n + i) (completions (snd (generatePdPatch ls client n p fb rc)) ! i) = Inl e
    \<longrightarrow> fst (generatePdPatch ls client n p fb rc) = Inl (catch_handler e)
        \<and> length (completions (snd (generatePdPatch ls client n p fb rc))) = Suc i
        \<and> (status e \<noteq> Some 401 \<and> status e \<noteq> Some 429
             \<and> message e \<noteq> ''API_KEY_MISSING'' \<and> message e \<noteq> ''API_KEY_INVALID''
           \<longrightarrow> fst (generatePdPatch ls client n p fb rc) = Inl e))
   \<and> (\<not> credential_ok ls
    \<longrightarrow> completions (snd (generatePdPatch ls client n p fb rc)) = []
        \<and> (fst (generatePdPatch ls client n p fb rc) = Inl (new_Error ''API_KEY_MISSING'')
           \<or> fst (generatePdPatch ls client n p fb rc) = Inl (new_Error ''API_KEY_INVALID'')))"
  using failing_completion_last [of i ls client n p fb rc e] no_credential_result [of ls client n p fb rc]
  by (auto simp: catch_handler_def)

theorem client_failure_aborts_witness:
  "1 < length (completions (snd (generatePdPatch test_storage
        (\<lambda>n m. if n = 0 then Inr (Some ''---PATCH---dac~'')
                else Inl (new_Error ''OpenAI request timeout'')) 0 ''tone'' None 0)))
   \<and> fst (generatePdPatch test_storage
        (\<lambda>n m. if n = 0 then Inr (Some ''---PATCH---dac~'')
                else Inl (new_Error ''OpenAI request timeout'')) 0 ''tone'' None 0)
      = Inl (new_Error ''OpenAI request timeout'')
   \<and> length (completions (snd (generatePdPatch test_storage
        (\<lambda>n m. if n = 0 then Inr (Some ''---PATCH---dac~'')
                else Inl (new_Error ''OpenAI request timeout'')) 0 ''tone'' None 0))) = 2
   \<and> fst (generatePdPatch test_storage
        (\<lambda>n m. Inl \<lparr>message = ''Unauthorized'', status = Some 401\<rparr>) 0 ''tone'' None 0)
      = Inl (catch_handler \<lparr>message = ''Unauthorized'', status = Some 401\<rparr>)
   \<and> length (completions (snd (generatePdPatch test_storage
        (\<lambda>n m. Inl \<lparr>message = ''Unauthorized'', status = Some 401\<rparr>) 0 ''tone'' None 0))) = 1
   \<and> \<not> credential_ok Map.empty
   \<and> completions (snd (generatePdPatch Map.empty (\<lambda>n m. Inr None) 0 ''tone'' None 0)) = []"
proof -
  let ?client = "\<lambda>(n::nat) (m::chat_message list).
      if n = 0 then Inr (Some ''---PATCH---dac~'')
      else (Inl (new_Error ''OpenAI request timeout'') :: js_error + string option)"
  let ?rejecting = "\<lambda>(n::nat) (m::chat_message list).
      (Inl \<lparr>message = ''Unauthorized'', status = Some 401\<rparr> :: js_error + string option)"
  have a: "1 < length (completions (snd (generatePdPatch test_storage ?client 0 ''tone'' None 0)))"
    by code_simp
  have b: "?client (0 + 1) (completions (snd (generatePdPatch test_storage ?client 0 ''tone'' None 0)) ! 1)
      = Inl (new_Error ''OpenAI request timeout'')"
    by simp
  have c: "\<not> credential_ok Map.empty"
    by (simp add: credential_ok_def)
  have d: "0 < length (completions (snd (generatePdPatch test_storage ?rejecting 0 ''tone'' None 0)))"
    by code_simp
  from a b
    client_failure_aborts [of 1 test_storage ?client 0 "''tone''" None 0
      "new_Error ''OpenAI request timeout''"]
  have "fst (generatePdPatch test_storage ?client 0 ''tone'' None 0)
      = Inl (new_Error ''OpenAI request timeout'')
    \<and> length (completions (snd (generatePdPatch test_storage ?client 0 ''tone'' None 0))) = 2"
    by (simp add: new_Error_def catch_handler_def)
  moreover from d
    client_failure_aborts [of 0 test_storage ?rejecting 0 "''tone''" None 0
      "\<lparr>message = ''Unauthorized'', status = Some 401\<rparr>"]
  have "fst (generatePdPatch test_storage ?rejecting 0 ''tone'' None 0)
      = Inl (catch_handler \<lparr>message = ''Unauthorized'', status = Some 401\<rparr>)
    \<and> length (completions (snd (generatePdPatch test_storage ?rejecting 0 ''tone'' None 0))) = 1"
    by simp
  moreover from c
    client_failure_aborts [of 0 Map.empty "\<lambda>n m. Inr None" 0 "''tone''" None 0 undefined]
  have "completions (snd (generatePdPatch Map.empty (\<lambda>n m. Inr None) 0 ''tone'' None 0)) = []"
    by blast
  ultimately show ?thesis using a c by blast
qed

subsection \<open>Exhausted attempts\<close>

lemma exhausted_result:
  "length (validations (snd (generatePdPatch ls client n p fb rc))) = 3 - rc \<Longrightarrow> rc \<le> 2 \<Longrightarrow>
   \<exists>c. fst (generatePdPatch ls client n p fb rc)
         = Inr \<lparr>patch = trim (fst (split_completion c)),
                explanation = trim (snd (split_completion c))\<rparr>
       \<and> last (validations (snd (generatePdPatch ls client n p fb rc)))
         = (fst (split_completion c), validation (fst (split_completion c)))"
proof (induction "2 - rc" arbitrary: rc n fb)
  case 0
  then have rc: "rc = 2" by simp
  show ?case
  proof (cases rule: gen_cases [where ls = ls and client = client and n = n and p = p
        and fb = fb and rc = rc])
    case no_credential
    with "0.prems" rc show ?thesis by (simp add: gen_no_credential)
  next
    case (client_error e')
    with "0.prems" rc show ?thesis by (simp add: gen_client_error)
  next
    case (retry c)
    with rc show ?thesis by simp
  next
    case (finished c)
    then show ?thesis by (intro exI [of _ c]) (simp add: gen_done)
  qed
next
  case (Suc d)
  then have rc: "rc < 2" by simp
  show ?case
  proof (cases rule: gen_cases [where ls = ls and client = client and n = n and p = p
        and fb = fb and rc = rc])
    case no_credential
    with Suc.prems rc show ?thesis by (simp add: gen_no_credential)
  next
    case (client_error e')
    with Suc.prems rc show ?thesis by (simp add: gen_client_error)
  next
    case (retry c)
    let ?fb = "Some (''Please include missing components: ''
                   @ missingComponents (validation (fst (split_completion c))))"
    let ?later = "generatePdPatch ls client (Suc n) p ?fb (Suc rc)"
    from Suc.hyps(2) have d: "d = 2 - Suc rc" by simp
    from retry have run: "fst (generatePdPatch ls client n p fb rc) = fst ?later"
      "validations (snd (generatePdPatch ls client n p fb rc))
         = (fst (split_completion c), validation (fst (split_completion c)))
           # validations (snd ?later)"
      by (simp_all add: gen_retry)
    from Suc.prems rc have len: "length (validations (snd ?later)) = 3 - Suc rc"
      by (simp add: run)
    from rc have "Suc rc \<le> 2" by simp
    from Suc.hyps(1) [OF d len this] obtain c' where
      c': "fst ?later = Inr \<lparr>patch = trim (fst (split_completion c')),
                 explanation = trim (snd (split_completion c'))\<rparr>"
        "last (validations (snd ?later))
           = (fst (split_completion c'), validation (fst (split_completion c')))"
      by blast
    from len rc have ne: "validations (snd ?later) \<noteq> []" by auto
    show ?thesis
      using c' ne by (intro exI [of _ c']) (simp add: run)
  next
    case (finished c)
    with Suc.prems rc show ?thesis by (simp add: gen_done)
  qed
qed

lemma gen_constant_client:
  "credential_ok ls \<Longrightarrow>
   generatePdPatch ls (\<lambda>n m. Inr c) n p fb rc =
     (if rc < 2 \<and> some_missing (validation (fst (split_completion c))) then
        apsnd (\<lambda>later. [Invoked rc fb, Completion (messages p fb),
                         Validated (fst (split_completion c))
                           (validation (fst (split_completion c)))] @ later)
          (generatePdPatch ls (\<lambda>n m. Inr c) (Suc n) p
             (Some (''Please include missing components: ''
                      @ missingComponents (validation (fst (split_completion c)))))
             (Suc rc))
      else
        (Inr \<lparr>patch = trim (fst (split_completion c)),
              explanation = trim (snd (split_completion c))\<rparr>,
         [Invoked rc fb, Completion (messages p fb),
          Validated (fst (split_completion c)) (validation (fst (split_completion c)))]))"
  by (simp add: gen_retry gen_done)

lemma credential_ok_test_storage: "credential_ok test_storage"
  by (simp add: credential_ok_def test_storage_def)

lemma trim_examples:
  "trim scenario_b_patch = scenario_b_patch"
  "trim meterless_patch = meterless_patch"
  "trim ''A tone.'' = ''A tone.''"
  "trim ''tone'' = ''tone''"
  by code_simp+

lemma audioValidation_scenario_b_patch:
  "audioValidation scenario_b_patch =
     [(''hasAudioSource'', True), (''hasVolume'', True), (''hasOutput'', True),
      (''hasConnections'', False)]"
  by code_simp

lemma split_meterless:
  "split_completion (completion_of meterless_patch) = (meterless_patch, ''A tone.'')"
  by code_simp

lemma validation_meterless_patch:
  "validation meterless_patch =
     [(''hasStartToggle'', True), (''hasDac'', True), (''hasVolumeControl'', True),
      (''hasVuMeter'', False), (''hasInstructions'', True), (''hasLoadBang'', True),
      (''hasMetro'', True), (''hasConnections'', True), (''hasAudioChain'', True),
      (''hasProperConnections'', True), (''hasSafeVolume'', True)]"
  by code_simp

lemma audioValidation_meterless_patch:
  "audioValidation meterless_patch =
     [(''hasAudioSource'', True), (''hasVolume'', True), (''hasOutput'', True),
      (''hasConnections'', True)]"
  by code_simp

lemma run_scenario_b:
  "fst (generatePdPatch test_storage (\<lambda>n m. Inr (completion_of scenario_b_patch)) 0 ''tone''
          None 0)
     = Inr \<lparr>patch = scenario_b_patch, explanation = ''A tone.''\<rparr>"
  "validations (snd (generatePdPatch test_storage
        (\<lambda>n m. Inr (completion_of scenario_b_patch)) 0 ''tone'' None 0))
     = [(scenario_b_patch, validation scenario_b_patch), (scenario_b_patch, validation scenario_b_patch),
        (scenario_b_patch, validation scenario_b_patch)]"
  by (simp_all add: gen_constant_client credential_ok_test_storage split_scenario_b
      validation_scenario_b_patch some_missing_def trim_examples)

lemma run_meterless:
  "fst (generatePdPatch test_storage (\<lambda>n m. Inr (completion_of meterless_patch)) 0 ''tone''
          None 0)
     = Inr \<lparr>patch = meterless_patch, explanation = ''A tone.''\<rparr>"
  "validations (snd (generatePdPatch test_storage
        (\<lambda>n m. Inr (completion_of meterless_patch)) 0 ''tone'' None 0))
     = [(meterless_patch, validation meterless_patch), (meterless_patch, validation meterless_patch),
        (meterless_patch, validation meterless_patch)]"
  by (simp_all add: gen_constant_client credential_ok_test_storage split_meterless
      validation_meterless_patch some_missing_def trim_examples)

text \<open>
  C2, as the code has it. Let \<^verbatim>\<open>handleGenerate\<close> run on a prompt that is not blank, and
  let all three attempts of its generation receive a completion, the last of them still
  failing some predicate. Then \<^verbatim>\<open>generatePdPatch\<close> raises no error: it returns the patch
  body of the last attempt, trimmed. \<^verbatim>\<open>handleGenerate\<close> then makes its own four checks
  (an audio source, a volume stage of 0.5 or 0.25, the output, six times
  \<^verbatim>\<open>#X connect\<close>). When they pass, the new patch becomes the current patch and the first
  element of the history. When one fails, history and current patch stay as they were and
  an error is shown.
\<close>

theorem exhausted_run:
  assumes "trim (prompt s) \<noteq> []"
    and "length (validations
           (snd (generatePdPatch (localStorage s) client 0 (prompt s) None 0))) = 3"
    and "some_missing (snd (last (validations
           (snd (generatePdPatch (localStorage s) client 0 (prompt s) None 0)))))"
  shows "\<exists>result.
      fst (generatePdPatch (localStorage s) client 0 (prompt s) None 0) = Inr result
      \<and> patch result
        = trim (fst (last (validations
            (snd (generatePdPatch (localStorage s) client 0 (prompt s) None 0)))))
      \<and> (if \<forall>v \<in> set (map snd (audioValidation (patch result))). v then
           history (fst (handleGenerate stringify client date_now new_date s))
             = new_patch date_now new_date (prompt s) result # history s
           \<and> currentPatch (fst (handleGenerate stringify client date_now new_date s))
             = Some (new_patch date_now new_date (prompt s) result)
         else
           history (fst (handleGenerate stringify client date_now new_date s)) = history s
           \<and> currentPatch (fst (handleGenerate stringify client date_now new_date s))
             = currentPatch s
           \<and> toasts (fst (handleGenerate stringify client date_now new_date s))
             = toasts s
               @ [toast_error ''Error: Generated patch is missing critical audio components''])"
proof -
  let ?run = "generatePdPatch (localStorage s) client 0 (prompt s) None 0"
  from assms(2) have "length (validations (snd ?run)) = 3 - 0" by simp
  from exhausted_result [OF this] obtain c where
    c: "fst ?run = Inr \<lparr>patch = trim (fst (split_completion c)),
                        explanation = trim (snd (split_completion c))\<rparr>"
       "last (validations (snd ?run))
          = (fst (split_completion c), validation (fst (split_completion c)))"
    by auto
  have msg: "\<not> includes_str ''Generated patch is missing critical audio components'' ''API key''"
    by simp
  show ?thesis
    using assms(1) c msg
    by (intro exI [of _ "\<lparr>patch = trim (fst (split_completion c)),
                        explanation = trim (snd (split_completion c))\<rparr>"])
      (simp add: handleGenerate_def Let_def generate_failed_def new_Error_def)
qed

text \<open>
  The witness: the level meter alone is missing in all three attempts. The patch is
  returned and stored.
\<close>

theorem exhausted_run_witness:
  "trim (prompt initial_state) \<noteq> []
   \<and> length (validations (snd (generatePdPatch (localStorage initial_state)
        (\<lambda>n m. Inr (completion_of meterless_patch)) 0 (prompt initial_state) None 0))) = 3
   \<and> some_missing (snd (last (validations (snd (generatePdPatch (localStorage initial_state)
        (\<lambda>n m. Inr (completion_of meterless_patch)) 0 (prompt initial_state) None 0)))))
   \<and> history (fst (handleGenerate (\<lambda>h. []) (\<lambda>n m. Inr (completion_of meterless_patch))
        1000 1001 initial_state))
      = [new_patch 1000 1001 ''tone'' \<lparr>patch = meterless_patch, explanation = ''A tone.''\<rparr>]"
proof -
  let ?client = "\<lambda>(n::nat) (m::chat_message list).
      (Inr (completion_of meterless_patch) :: js_error + string option)"
  let ?run = "generatePdPatch (localStorage initial_state) ?client 0 (prompt initial_state) None 0"
  have run: "?run = generatePdPatch test_storage ?client 0 ''tone'' None 0"
    by (simp add: initial_state_def)
  have h1: "trim (prompt initial_state) \<noteq> []"
    by (simp add: initial_state_def trim_examples)
  have h2: "length (validations (snd ?run)) = 3"
    by (simp add: run run_meterless)
  have h3: "some_missing (snd (last (validations (snd ?run))))"
    by (simp add: run run_meterless validation_meterless_patch some_missing_def)
  from exhausted_run [OF h1 h2 h3, of "\<lambda>h. []" 1000 1001]
  have "history (fst (handleGenerate (\<lambda>h. []) ?client 1000 1001 initial_state))
      = [new_patch 1000 1001 ''tone'' \<lparr>patch = meterless_patch, explanation = ''A tone.''\<rparr>]"
    by (auto simp: run run_meterless audioValidation_meterless_patch initial_state_def)
  with h1 h2 h3 show ?thesis by blast
qed

text \<open>
  C2 as stated fails in the second scenario of the specification: no level meter and four
  connections in all three attempts. \<^verbatim>\<open>generatePdPatch\<close> returns the patch, but
  \<^verbatim>\<open>handleGenerate\<close> finds fewer than six connections, shows an error and stores
  nothing.
\<close>

theorem exhausted_run_counterexample:
  "length (validations (snd (generatePdPatch test_storage
       (\<lambda>n m. Inr (completion_of scenario_b_patch)) 0 ''tone'' None 0))) = 3
   \<and> some_missing (snd (last (validations (snd (generatePdPatch test_storage
       (\<lambda>n m. Inr (completion_of scenario_b_patch)) 0 ''tone'' None 0)))))
   \<and> fst (generatePdPatch test_storage
       (\<lambda>n m. Inr (completion_of scenario_b_patch)) 0 ''tone'' None 0)
       = Inr \<lparr>patch = scenario_b_patch, explanation = ''A tone.''\<rparr>
   \<and> history (fst (handleGenerate (\<lambda>h. []) (\<lambda>n m. Inr (completion_of scenario_b_patch))
        1000 1001 initial_state)) = []
   \<and> toasts (fst (handleGenerate (\<lambda>h. []) (\<lambda>n m. Inr (completion_of scenario_b_patch))
        1000 1001 initial_state))
       = [toast_error ''Error: Generated patch is missing critical audio components'']"
  by (simp add: run_scenario_b validation_scenario_b_patch some_missing_def
      handleGenerate_def initial_state_def Let_def trim_examples
      audioValidation_scenario_b_patch generate_failed_def new_Error_def)

section \<open>Properties of handleRegenerate\<close>

lemma decimal_examples: "decimal 1000 = ''1000''" "decimal 900 = ''900''"
  by code_simp+

lemma run_regenerate:
  "fst (generatePdPatch test_storage (\<lambda>n m. Inr (Some ''---PATCH---osc~---EXPLANATION---fixed''))
          0 ''tone'' (Some ''dac~ not connected'') 0)
     = Inr \<lparr>patch = ''osc~'', explanation = ''fixed''\<rparr>"
  by code_simp

text \<open>
  C7. Let a patch be selected and let the generation that \<^verbatim>\<open>handleRegenerate\<close> starts
  with the user's error text return a result. Then the selected patch becomes a patch
  whose error history is one new entry followed by all earlier entries, unchanged and in
  their order (none, when the patch had no error history). The new entry carries the
  user's error text and a \<^verbatim>\<open>regeneratedPatch\<close> with the returned patch body and
  explanation. Every other field of the patch, its content among them, is as before. In
  the history, the patches with the name of the selected patch are replaced by this new
  version, and all others stay as they are, in place.
\<close>

theorem regenerate_prepends:
  assumes "currentPatch s = Some cp"
    and "fst (generatePdPatch (localStorage s) client 0 (description cp) (Some errorMessage) 0)
           = Inr result"
  shows "\<exists>cp'.
      currentPatch (fst (handleRegenerate stringify client date1 date2 errorMessage s)) = Some cp'
      \<and> errorHistory cp'
        = Some (\<lparr>error = errorMessage, timestamp = date1,
                  regeneratedPatch =
                    Some \<lparr>rg_content = patch result, rg_explanation = explanation result,
                          rg_timestamp = date2\<rparr>\<rparr>
                # (case errorHistory cp of None \<Rightarrow> [] | Some h \<Rightarrow> h))
      \<and> content cp' = content cp
      \<and> cp'\<lparr>errorHistory := errorHistory cp\<rparr> = cp
      \<and> history (fst (handleRegenerate stringify client date1 date2 errorMessage s))
        = map (\<lambda>q. if name q = name cp then cp' else q) (history s)"
  using assms
  by (intro exI [of _ "updated_patch date1 date2 errorMessage result cp"])
    (simp add: handleRegenerate_def Let_def updated_patch_def)

text \<open>
  The witness is the fourth scenario of the specification: the error text
  \<^verbatim>\<open>dac~ not connected\<close> against a patch that has one earlier entry.
\<close>

theorem regenerate_prepends_witness:
  "currentPatch regenerate_state = Some stored_patch
   \<and> fst (generatePdPatch (localStorage regenerate_state)
        (\<lambda>n m. Inr (Some ''---PATCH---osc~---EXPLANATION---fixed'')) 0 (description stored_patch)
        (Some ''dac~ not connected'') 0)
      = Inr \<lparr>patch = ''osc~'', explanation = ''fixed''\<rparr>
   \<and> map error (the (errorHistory (hd (history (fst (handleRegenerate (\<lambda>h. [])
        (\<lambda>n m. Inr (Some ''---PATCH---osc~---EXPLANATION---fixed'')) 2000 2001
        ''dac~ not connected'' regenerate_state))))))
      = [''dac~ not connected'', ''too loud'']
   \<and> content (hd (history (fst (handleRegenerate (\<lambda>h. [])
        (\<lambda>n m. Inr (Some ''---PATCH---osc~---EXPLANATION---fixed'')) 2000 2001
        ''dac~ not connected'' regenerate_state))))
      = ''dac~''
   \<and> history (fst (handleRegenerate (\<lambda>h. [])
        (\<lambda>n m. Inr (Some ''---PATCH---osc~---EXPLANATION---fixed'')) 2000 2001
        ''dac~ not connected'' regenerate_state)) ! 1
      = other_patch"
proof -
  let ?client = "\<lambda>(n::nat) (m::chat_message list).
      (Inr (Some ''---PATCH---osc~---EXPLANATION---fixed'') :: js_error + string option)"
  have h1: "currentPatch regenerate_state = Some stored_patch"
    by (simp add: regenerate_state_def)
  have h2: "fst (generatePdPatch (localStorage regenerate_state) ?client 0
        (description stored_patch) (Some ''dac~ not connected'') 0)
      = Inr \<lparr>patch = ''osc~'', explanation = ''fixed''\<rparr>"
    by (simp add: regenerate_state_def initial_state_def stored_patch_def new_patch_def
        run_regenerate)
  from regenerate_prepends [OF h1 h2, of "\<lambda>h. []" 2000 2001] h1 h2
  show ?thesis
    by (auto simp: regenerate_state_def initial_state_def stored_patch_def other_patch_def
        new_patch_def decimal_examples)
qed

end
